theory Spec2Isabelle
  imports Main "HOL-Library.Word"
begin

section \<open>JavaScript strings and values\<close>

text \<open>
  A JavaScript string is a sequence of 16-bit code units. String literals of the source
  are ASCII; \<open>lit\<close> turns an Isabelle literal into its code units.
\<close>

type_synonym js_string = "16 word list"

definition lit :: "string \<Rightarrow> js_string" where
  "lit cs = map of_char cs"

text \<open>
  \<open>String.prototype.trim\<close> removes, at both ends, the code units that ECMAScript
  classes as WhiteSpace or LineTerminator: TAB, LF, VT, FF, CR, SP, NBSP, U+1680,
  U+2000..U+200A, U+2028, U+2029, U+202F, U+205F, U+3000 and U+FEFF.
\<close>

definition isWhiteSpace :: "16 word \<Rightarrow> bool" where
  "isWhiteSpace c \<longleftrightarrow>
     c = 0x09 \<or> c = 0x0A \<or> c = 0x0B \<or> c = 0x0C \<or> c = 0x0D \<or> c = 0x20 \<or> c = 0xA0 \<or>
     c = 0x1680 \<or> (0x2000 \<le> c \<and> c \<le> 0x200A) \<or> c = 0x2028 \<or> c = 0x2029 \<or>
     c = 0x202F \<or> c = 0x205F \<or> c = 0x3000 \<or> c = 0xFEFF"

definition trim :: "js_string \<Rightarrow> js_string" where
  "trim s = rev (dropWhile isWhiteSpace (rev (dropWhile isWhiteSpace s)))"

text \<open>
  The values \<open>response.json()\<close> can produce. \<open>undefined\<close> is not one of them: an
  expression that may be \<open>undefined\<close> has type \<open>js_value option\<close>, with \<open>None\<close> for
  \<open>undefined\<close>. Of a number this program only ever tests whether it is zero. An object
  is the list of its properties; a parsed object has each name once, and \<open>map_of\<close> reads
  the first entry of a name.
\<close>

datatype js_value =
    JNull
  | JBool bool
  | JNumber int
  | JString js_string
  | JArray "js_value list"
  | JObject "(js_string \<times> js_value) list"

text \<open>
  Reading the property \<open>name\<close> of a value that is neither \<open>null\<close> nor \<open>undefined\<close>,
  for the four names the program reads (\<open>candidates\<close>, \<open>content\<close>, \<open>parts\<close>,
  \<open>text\<close>): only an object can have one of them.
\<close>

fun get_prop :: "js_string \<Rightarrow> js_value \<Rightarrow> js_value option" where
  "get_prop name (JObject kvs) = map_of kvs name"
| "get_prop name v = None"

text \<open>
  Reading \<open>v[0]\<close>: the first element of an array, the property \<open>"0"\<close> of an object,
  the first code unit of a string, \<open>undefined\<close> otherwise.
\<close>

fun get_index0 :: "js_value \<Rightarrow> js_value option" where
  "get_index0 (JArray xs) = (case xs of [] \<Rightarrow> None | x # rest \<Rightarrow> Some x)"
| "get_index0 (JObject kvs) = map_of kvs (lit ''0'')"
| "get_index0 (JString s) = (case s of [] \<Rightarrow> None | c # rest \<Rightarrow> Some (JString [c]))"
| "get_index0 v = None"

text \<open>Optional chaining \<open>v?.p\<close>: \<open>undefined\<close> when \<open>v\<close> is \<open>null\<close> or \<open>undefined\<close>.\<close>

definition opt_chain :: "(js_value \<Rightarrow> js_value option) \<Rightarrow> js_value option \<Rightarrow> js_value option" where
  "opt_chain access v =
     (case v of None \<Rightarrow> None | Some JNull \<Rightarrow> None | Some x \<Rightarrow> access x)"

fun truthy :: "js_value \<Rightarrow> bool" where
  "truthy JNull = False"
| "truthy (JBool b) = b"
| "truthy (JNumber n) = (n \<noteq> 0)"
| "truthy (JString s) = (s \<noteq> [])"
| "truthy (JArray xs) = True"
| "truthy (JObject kvs) = True"

text \<open>The operator \<open>a || b\<close>: \<open>a\<close> when it is truthy, \<open>b\<close> otherwise.\<close>

definition js_or :: "js_value option \<Rightarrow> js_value \<Rightarrow> js_value" where
  "js_or a b = (case a of None \<Rightarrow> b | Some v \<Rightarrow> if truthy v then v else b)"

section \<open>The credential: app.config.js\<close>

text \<open>
  \<open>geminiApiKey: envVars.GEMINI_API_KEY || "FALLBACK_API_KEY"\<close>. The module
  \<open>.env.js\<close> is not part of the sources; its value is the parameter \<open>env\<close>, a string
  when it is set.
\<close>

definition geminiApiKey :: "js_string option \<Rightarrow> js_string" where
  "geminiApiKey env =
     (case env of
        None \<Rightarrow> lit ''FALLBACK_API_KEY''
      | Some k \<Rightarrow> if k = [] then lit ''FALLBACK_API_KEY'' else k)"

text \<open>
  \<open>const GEMINI_API_KEY = Constants.expoConfig?.extra?.geminiApiKey\<close>, when the
  configuration the application runs with is the one of app.config.js.
\<close>

definition GEMINI_API_KEY :: "js_string option \<Rightarrow> js_string option" where
  "GEMINI_API_KEY env = Some (geminiApiKey env)"

section \<open>callGeminiApi\<close>

record request =
  url :: js_string
  http_method :: js_string
  headers :: "(js_string \<times> js_string) list"
  body :: js_value

text \<open>
  A response of \<open>fetch\<close>: its status, and what the promises \<open>response.text()\<close> and
  \<open>response.json()\<close> resolve to (\<open>None\<close> when the promise rejects: the body cannot
  be read, or is not JSON). \<open>response.ok\<close> is true for the statuses 200 to 299.
\<close>

record response =
  status :: nat
  response_text :: "js_string option"
  response_json :: "js_value option"

definition ok :: "response \<Rightarrow> bool" where
  "ok r \<longleftrightarrow> 200 \<le> status r \<and> status r \<le> 299"

text \<open>
  What can be thrown inside \<open>callGeminiApi\<close>: the rejection of \<open>fetch\<close>, of
  \<open>response.text()\<close>, of \<open>response.json()\<close>, and the program's own
  \<open>new Error(`API request failed with status ${response.status}`)\<close>.
\<close>

datatype js_error =
    FetchRejected
  | TextRejected
  | JsonRejected
  | ApiRequestFailed nat

datatype effect =
    Fetch request
  | ConsoleErrorApi js_string
  | ConsoleErrorCall js_error

definition API_URL :: js_string where
  "API_URL = lit ''https://generativelanguage.googleapis.com/v1beta/models/gemini-1.5-flash-latest:generateContent''"

definition MSG_NO_KEY :: js_string where
  "MSG_NO_KEY = lit ''API key not configured. Please add your Gemini API key to the app configuration.''"

definition MSG_NO_TEXT :: js_string where
  "MSG_NO_TEXT = lit ''Sorry, I couldn't generate a response.''"

definition MSG_ERROR :: js_string where
  "MSG_ERROR = lit ''Sorry, there was an error processing your request. Please try again later.''"

text \<open>The request of lines 54 to 70; the body is the value handed to \<open>JSON.stringify\<close>.\<close>

definition gemini_request :: "js_string \<Rightarrow> js_string \<Rightarrow> request" where
  "gemini_request k userMessage =
     \<lparr> url = API_URL @ lit ''?key='' @ k,
       http_method = lit ''POST'',
       headers = [(lit ''Content-Type'', lit ''application/json'')],
       body = JObject [(lit ''contents'',
                JArray [JObject [(lit ''parts'',
                  JArray [JObject [(lit ''text'', JString userMessage)]])]])] \<rparr>"

text \<open>
  \<open>responseData?.candidates?.[0]?.content?.parts?.[0]?.text\<close>
\<close>

definition extract_text :: "js_value \<Rightarrow> js_value option" where
  "extract_text responseData =
     opt_chain (get_prop (lit ''text''))
       (opt_chain get_index0
         (opt_chain (get_prop (lit ''parts''))
           (opt_chain (get_prop (lit ''content''))
             (opt_chain get_index0
               (opt_chain (get_prop (lit ''candidates'')) (Some responseData))))))"

text \<open>
  The body of the \<open>try\<close> block of \<open>callGeminiApi\<close>. \<open>key\<close> is the value of the constant
  \<open>GEMINI_API_KEY\<close> (\<open>None\<close> for \<open>undefined\<close>, a string otherwise; \<open>!GEMINI_API_KEY\<close>
  holds of \<open>undefined\<close> and of the empty string); \<open>fetched\<close> is how the promise of
  \<open>fetch\<close> settles if the call is made: \<open>Inl\<close> when it rejects, \<open>Inr\<close> with the
  response otherwise. The result is the effects in order, and \<open>Inl e\<close> when \<open>e\<close> is
  thrown, \<open>Inr v\<close> when \<open>v\<close> is returned.
\<close>

definition callGeminiApi_try ::
  "js_string option \<Rightarrow> js_error + response \<Rightarrow> js_string \<Rightarrow> effect list \<times> (js_error + js_value)" where
  "callGeminiApi_try key fetched userMessage =
     (case key of
        None \<Rightarrow> ([], Inr (JString MSG_NO_KEY))
      | Some k \<Rightarrow>
          if k = [] then ([], Inr (JString MSG_NO_KEY))
          else
            (case fetched of
               Inl e \<Rightarrow> ([Fetch (gemini_request k userMessage)], Inl e)
             | Inr resp \<Rightarrow>
                 if \<not> ok resp then
                   (case response_text resp of
                      None \<Rightarrow> ([Fetch (gemini_request k userMessage)], Inl TextRejected)
                    | Some errorText \<Rightarrow>
                        ([Fetch (gemini_request k userMessage), ConsoleErrorApi errorText],
                         Inl (ApiRequestFailed (status resp))))
                 else
                   (case response_json resp of
                      None \<Rightarrow> ([Fetch (gemini_request k userMessage)], Inl JsonRejected)
                    | Some responseData \<Rightarrow>
                        ([Fetch (gemini_request k userMessage)],
                         Inr (js_or (extract_text responseData) (JString MSG_NO_TEXT))))))"

text \<open>The whole function: the \<open>catch\<close> block logs what was thrown and returns a string.\<close>

definition callGeminiApi ::
  "js_string option \<Rightarrow> js_error + response \<Rightarrow> js_string \<Rightarrow> effect list \<times> (js_error + js_value)" where
  "callGeminiApi key fetched userMessage =
     (case callGeminiApi_try key fetched userMessage of
        (fx, Inl error) \<Rightarrow> (fx @ [ConsoleErrorCall error], Inr (JString MSG_ERROR))
      | (fx, Inr v) \<Rightarrow> (fx, Inr v))"

section \<open>The screen state and sendMessage\<close>

text \<open>
  \<open>interface ChatMessage { id: number; text: string; isBot: boolean }\<close>. The text of a
  bot message is whatever \<open>callGeminiApi\<close> returned, which the type checker does not
  constrain (\<open>response.json()\<close> is of type \<open>any\<close>), so it is a \<open>js_value\<close>.
\<close>

record ChatMessage =
  msg_id :: nat
  msg_text :: js_value
  isBot :: bool

text \<open>The three \<open>useState\<close> cells of \<open>HomeScreen\<close>.\<close>

record HomeScreen =
  message :: js_string
  isLoading :: bool
  chatHistory :: "ChatMessage list"

definition initial_screen :: HomeScreen where
  "initial_screen =
     \<lparr> message = [],
       isLoading = False,
       chatHistory =
         [\<lparr> msg_id = 1, msg_text = JString (lit ''Hello! How can I help you today?''), isBot = True \<rparr>] \<rparr>"

text \<open>\<open>onChangeText={setMessage}\<close>\<close>

definition setMessage :: "js_string \<Rightarrow> HomeScreen \<Rightarrow> HomeScreen" where
  "setMessage t s = s\<lparr> message := t \<rparr>"

text \<open>
  \<open>sendMessage\<close> is a closure of one render: \<open>message\<close> and \<open>chatHistory\<close> in its body
  are the values of that render, the parameter \<open>r\<close>, while the setters act on the state at
  the time they run, the parameter \<open>s\<close> (\<open>setChatHistory((prev) => [...prev, m])\<close> appends
  to the current history). The function runs in two parts, split at \<open>await\<close>.

  Lines 90 to 104, up to the call of \<open>callGeminiApi\<close>: the new state, and the argument of
  the call when one is made.
\<close>

definition sendMessage_submit :: "HomeScreen \<Rightarrow> HomeScreen \<Rightarrow> HomeScreen \<times> js_string option" where
  "sendMessage_submit r s =
     (if trim (message r) = [] then (s, None)
      else
        (s\<lparr> isLoading := True,
            chatHistory := chatHistory s @
              [\<lparr> msg_id = length (chatHistory r) + 1, msg_text = JString (message r), isBot = False \<rparr>],
            message := [] \<rparr>,
         Some (message r)))"

text \<open>
  Lines 108 to 123, from the point where the awaited call has settled with \<open>awaited\<close>:
  \<open>Inr\<close> the returned text, \<open>Inl\<close> an error thrown to the \<open>catch\<close> block, which shows
  an alert and appends nothing. \<open>finally\<close> clears \<open>isLoading\<close> on both paths.
\<close>

definition sendMessage_resume :: "HomeScreen \<Rightarrow> js_error + js_value \<Rightarrow> HomeScreen \<Rightarrow> HomeScreen" where
  "sendMessage_resume r awaited s =
     (case awaited of
        Inr botResponseText \<Rightarrow>
          s\<lparr> chatHistory := chatHistory s @
                [\<lparr> msg_id = length (chatHistory r) + 2, msg_text = botResponseText, isBot = True \<rparr>],
              isLoading := False \<rparr>
      | Inl error \<Rightarrow> s\<lparr> isLoading := False \<rparr>)"

text \<open>One whole call of \<open>sendMessage\<close> with nothing else happening during the \<open>await\<close>.\<close>

definition sendMessage ::
  "js_string option \<Rightarrow> js_error + response \<Rightarrow> HomeScreen \<Rightarrow> HomeScreen \<Rightarrow> effect list \<times> HomeScreen" where
  "sendMessage key fetched r s =
     (case sendMessage_submit r s of
        (s1, None) \<Rightarrow> ([], s1)
      | (s1, Some userMessageText) \<Rightarrow>
          (fst (callGeminiApi key fetched userMessageText),
           sendMessage_resume r (snd (callGeminiApi key fetched userMessageText)) s1))"

text \<open>
  The send button: \<open>disabled={isLoading || message.trim() === ""}\<close>,
  \<open>onPress={sendMessage}\<close>. A disabled button does not call its handler; an enabled one
  calls the closure of the current render.
\<close>

definition sendButton_disabled :: "HomeScreen \<Rightarrow> bool" where
  "sendButton_disabled s \<longleftrightarrow> isLoading s \<or> trim (message s) = []"

definition pressSend :: "HomeScreen \<Rightarrow> HomeScreen \<times> js_string option" where
  "pressSend s = (if sendButton_disabled s then (s, None) else sendMessage_submit s s)"

section \<open>Sessions\<close>

text \<open>
  A session is the screen state together with the calls of \<open>sendMessage\<close> that are
  suspended at their \<open>await\<close> (for each, the render it closes over and the text it sent),
  oldest first, and the number of calls that passed the guard of line 90 so far.
\<close>

record session =
  screen :: HomeScreen
  inflight :: "(HomeScreen \<times> js_string) list"
  accepted :: nat

definition initial_session :: session where
  "initial_session = \<lparr> screen = initial_screen, inflight = [], accepted = 0 \<rparr>"

text \<open>
  What can happen to a session: the draft changes; the send button is pressed; the
  oldest suspended call resumes, its \<open>fetch\<close> (if it made one) having settled as given;
  and \<open>sendMessage\<close> is called from the current render without going through the button,
  which the program itself never does.
\<close>

datatype event =
    ChangeText js_string
  | PressSend
  | Resolve "js_error + response"
  | CallSendMessage

definition launch :: "session \<Rightarrow> HomeScreen \<times> js_string option \<Rightarrow> session" where
  "launch c res =
     (case res of
        (s', None) \<Rightarrow> c\<lparr> screen := s' \<rparr>
      | (s', Some userMessageText) \<Rightarrow>
          \<lparr> screen = s',
            inflight = inflight c @ [(screen c, userMessageText)],
            accepted = accepted c + 1 \<rparr>)"

fun step :: "js_string option \<Rightarrow> session \<Rightarrow> event \<Rightarrow> session" where
  "step key c (ChangeText t) = c\<lparr> screen := setMessage t (screen c) \<rparr>"
| "step key c PressSend = launch c (pressSend (screen c))"
| "step key c CallSendMessage = launch c (sendMessage_submit (screen c) (screen c))"
| "step key c (Resolve fetched) =
     (case inflight c of
        [] \<Rightarrow> c
      | (r, userMessageText) # rest \<Rightarrow>
          c\<lparr> screen := sendMessage_resume r (snd (callGeminiApi key fetched userMessageText)) (screen c),
             inflight := rest \<rparr>)"

definition run :: "js_string option \<Rightarrow> event list \<Rightarrow> session \<Rightarrow> session" where
  "run key evs c = foldl (step key) c evs"

text \<open>A run is gated when every call of \<open>sendMessage\<close> in it comes from the send button.\<close>

definition gated :: "event list \<Rightarrow> bool" where
  "gated evs \<longleftrightarrow> CallSendMessage \<notin> set evs"

text \<open>Each id is the 1-based position of its message.\<close>

definition ids_are_positions :: "ChatMessage list \<Rightarrow> bool" where
  "ids_are_positions h \<longleftrightarrow> map msg_id h = [1 ..< Suc (length h)]"

text \<open>
  What holds of a session as long as every send goes through the button: the ids are the
  positions, \<open>isLoading\<close> is set exactly while a call is suspended, at most one call is
  suspended, and the history has grown by exactly the user message since the render that
  call closes over.
\<close>

definition gate_inv :: "session \<Rightarrow> bool" where
  "gate_inv c \<longleftrightarrow>
     ids_are_positions (chatHistory (screen c)) \<and>
     (case inflight c of
        [] \<Rightarrow> \<not> isLoading (screen c)
      | [(r, t)] \<Rightarrow>
          isLoading (screen c) \<and> length (chatHistory (screen c)) = Suc (length (chatHistory r))
      | p # q # rest \<Rightarrow> False)"

text \<open>
  What holds of every session: each accepted call has added one user message and is either
  still suspended or has added one bot message.
\<close>

definition count_inv :: "session \<Rightarrow> bool" where
  "count_inv c \<longleftrightarrow>
     length (chatHistory (screen c)) + length (inflight c) = 1 + 2 * accepted c \<and>
     accepted c = length (filter (\<lambda>m. \<not> isBot m) (chatHistory (screen c)))"

section \<open>Properties of callGeminiApi\<close>

lemma callGeminiApi_returns: "\<exists>v. snd (callGeminiApi key fetched m) = Inr v"
  by (auto simp: callGeminiApi_def callGeminiApi_try_def split: option.splits sum.splits prod.splits)

lemma fallbacks_distinct: "distinct [MSG_NO_KEY, MSG_NO_TEXT, MSG_ERROR]"
  by (simp add: MSG_NO_KEY_def MSG_NO_TEXT_def MSG_ERROR_def lit_def)

lemma callGeminiApi_rejected:
  "k \<noteq> [] \<Longrightarrow> callGeminiApi (Some k) (Inl e) m =
     ([Fetch (gemini_request k m), ConsoleErrorCall e], Inr (JString MSG_ERROR))"
  by (simp add: callGeminiApi_def callGeminiApi_try_def)

lemma callGeminiApi_not_ok:
  "k \<noteq> [] \<Longrightarrow> \<not> ok resp \<Longrightarrow> snd (callGeminiApi (Some k) (Inr resp) m) = Inr (JString MSG_ERROR)"
  by (simp add: callGeminiApi_def callGeminiApi_try_def split: option.splits)

lemma callGeminiApi_bad_json:
  "k \<noteq> [] \<Longrightarrow> ok resp \<Longrightarrow> response_json resp = None \<Longrightarrow>
     snd (callGeminiApi (Some k) (Inr resp) m) = Inr (JString MSG_ERROR)"
  by (simp add: callGeminiApi_def callGeminiApi_try_def)

lemma callGeminiApi_ok:
  "k \<noteq> [] \<Longrightarrow> ok resp \<Longrightarrow> response_json resp = Some d \<Longrightarrow>
     callGeminiApi (Some k) (Inr resp) m =
       ([Fetch (gemini_request k m)], Inr (js_or (extract_text d) (JString MSG_NO_TEXT)))"
  by (simp add: callGeminiApi_def callGeminiApi_try_def)

lemma callGeminiApi_fetches:
  "k \<noteq> [] \<Longrightarrow> \<exists>rest. fst (callGeminiApi (Some k) fetched m) = Fetch (gemini_request k m) # rest"
  by (auto simp: callGeminiApi_def callGeminiApi_try_def split: option.splits sum.splits)

lemma extract_text_first_part:
  assumes "map_of root (lit ''candidates'') = Some (JArray (JObject cand # cs))"
    and "map_of cand (lit ''content'') = Some (JObject cont)"
    and "map_of cont (lit ''parts'') = Some (JArray (JObject part # ps))"
  shows "extract_text (JObject root) = map_of part (lit ''text'')"
  using assms by (simp add: extract_text_def opt_chain_def)

lemma extract_text_not_object:
  "(case d of JObject root \<Rightarrow> False | _ \<Rightarrow> True) \<Longrightarrow> extract_text d = None"
  by (cases d) (simp_all add: extract_text_def opt_chain_def)

lemma extract_text_no_candidates:
  "map_of root (lit ''candidates'') = None \<or> map_of root (lit ''candidates'') = Some (JArray []) \<Longrightarrow>
     extract_text (JObject root) = None"
  by (auto simp: extract_text_def opt_chain_def)

lemma extract_text_no_content:
  "map_of root (lit ''candidates'') = Some (JArray (JObject cand # cs)) \<Longrightarrow>
   map_of cand (lit ''content'') = None \<Longrightarrow>
     extract_text (JObject root) = None"
  by (simp add: extract_text_def opt_chain_def)

lemma extract_text_no_parts:
  "map_of root (lit ''candidates'') = Some (JArray (JObject cand # cs)) \<Longrightarrow>
   map_of cand (lit ''content'') = Some (JObject cont) \<Longrightarrow>
   map_of cont (lit ''parts'') = None \<or> map_of cont (lit ''parts'') = Some (JArray []) \<Longrightarrow>
     extract_text (JObject root) = None"
  by (auto simp: extract_text_def opt_chain_def)

section \<open>Invariants of sessions\<close>

lemma ids_are_positions_snoc:
  "ids_are_positions h \<Longrightarrow> msg_id m = Suc (length h) \<Longrightarrow> ids_are_positions (h @ [m])"
  by (simp add: ids_are_positions_def)

lemma ids_are_positions_nth:
  "ids_are_positions h \<Longrightarrow> i < length h \<Longrightarrow> msg_id (h ! i) = i + 1"
proof -
  assume a: "ids_are_positions h" and b: "i < length h"
  have "msg_id (h ! i) = map msg_id h ! i" using b by simp
  also have "\<dots> = [1 ..< Suc (length h)] ! i" using a by (simp add: ids_are_positions_def)
  also have "\<dots> = i + 1" using b by (simp add: nth_upt del: upt_Suc)
  finally show ?thesis .
qed

lemma ids_are_positions_sorted:
  "ids_are_positions h \<Longrightarrow> sorted_wrt (<) (map msg_id h)"
  by (simp add: ids_are_positions_def del: upt_Suc)

lemma gate_inv_initial: "gate_inv initial_session"
  by (simp add: gate_inv_def initial_session_def initial_screen_def ids_are_positions_def)

lemma gate_inv_step:
  assumes "gate_inv c" and "ev \<noteq> CallSendMessage"
  shows "gate_inv (step key c ev)"
proof (cases ev)
  case (ChangeText t)
  with assms show ?thesis
    by (auto simp: gate_inv_def setMessage_def split: list.splits)
next
  case PressSend
  show ?thesis
  proof (cases "sendButton_disabled (screen c)")
    case True
    with PressSend assms show ?thesis by (simp add: pressSend_def launch_def)
  next
    case False
    then have idle: "\<not> isLoading (screen c)" and draft: "trim (message (screen c)) \<noteq> []"
      by (simp_all add: sendButton_disabled_def)
    from idle assms have nil: "inflight c = []"
      by (auto simp: gate_inv_def split: list.splits)
    from assms have pos: "ids_are_positions (chatHistory (screen c))"
      by (simp add: gate_inv_def)
    show ?thesis
      using PressSend False draft nil ids_are_positions_snoc [OF pos]
      by (simp add: pressSend_def launch_def sendMessage_submit_def gate_inv_def)
  qed
next
  case (Resolve fetched)
  show ?thesis
  proof (cases "inflight c")
    case Nil
    with Resolve assms show ?thesis by simp
  next
    case (Cons p rest)
    obtain r t where p: "p = (r, t)" by (cases p)
    from assms Cons p have rest: "rest = []"
      and len: "length (chatHistory (screen c)) = Suc (length (chatHistory r))"
      and pos: "ids_are_positions (chatHistory (screen c))"
      by (auto simp: gate_inv_def split: list.splits)
    obtain v where v: "snd (callGeminiApi key fetched t) = Inr v"
      using callGeminiApi_returns by blast
    show ?thesis
      using Resolve Cons p rest len v ids_are_positions_snoc [OF pos]
      by (simp add: gate_inv_def sendMessage_resume_def)
  qed
next
  case CallSendMessage
  with assms show ?thesis by simp
qed

lemma gate_inv_run:
  "gated evs \<Longrightarrow> gate_inv c \<Longrightarrow> gate_inv (run key evs c)"
proof (induction evs arbitrary: c)
  case Nil
  then show ?case by (simp add: run_def)
next
  case (Cons ev evs)
  from Cons.prems have "ev \<noteq> CallSendMessage" and "gated evs"
    by (auto simp: gated_def)
  with Cons.prems Cons.IH [of "step key c ev"] gate_inv_step [of c ev key]
  show ?case by (simp add: run_def)
qed

lemma count_inv_initial: "count_inv initial_session"
  by (simp add: count_inv_def initial_session_def initial_screen_def)

lemma count_inv_launch:
  "count_inv c \<Longrightarrow> count_inv (launch c (sendMessage_submit (screen c) (screen c)))"
  by (simp add: count_inv_def launch_def sendMessage_submit_def)

lemma count_inv_step:
  assumes "count_inv c"
  shows "count_inv (step key c ev)"
proof (cases ev)
  case (ChangeText t)
  with assms show ?thesis by (simp add: count_inv_def setMessage_def)
next
  case PressSend
  with assms count_inv_launch [OF assms] show ?thesis
    by (simp add: pressSend_def) (simp add: launch_def)
next
  case CallSendMessage
  with count_inv_launch [OF assms] show ?thesis by simp
next
  case (Resolve fetched)
  show ?thesis
  proof (cases "inflight c")
    case Nil
    with Resolve assms show ?thesis by simp
  next
    case (Cons p rest)
    obtain r t where p: "p = (r, t)" by (cases p)
    obtain v where v: "snd (callGeminiApi key fetched t) = Inr v"
      using callGeminiApi_returns by blast
    show ?thesis
      using Resolve Cons p v assms
      by (simp add: count_inv_def sendMessage_resume_def)
  qed
qed

lemma count_inv_run: "count_inv c \<Longrightarrow> count_inv (run key evs c)"
proof (induction evs arbitrary: c)
  case Nil
  then show ?case by (simp add: run_def)
next
  case (Cons ev evs)
  with Cons.IH [of "step key c ev"] count_inv_step [of c key ev]
  show ?case by (simp add: run_def)
qed

section \<open>Properties of sendMessage\<close>

lemma sendMessage_submit_accepts:
  "trim (message r) \<noteq> [] \<Longrightarrow>
     sendMessage_submit r s =
       (s\<lparr> isLoading := True,
           chatHistory := chatHistory s @
             [\<lparr> msg_id = length (chatHistory r) + 1, msg_text = JString (message r), isBot = False \<rparr>],
           message := [] \<rparr>,
        Some (message r))"
  by (simp add: sendMessage_submit_def)

lemma sendMessage_submit_blank:
  "trim (message r) = [] \<Longrightarrow> sendMessage_submit r s = (s, None)"
  by (simp add: sendMessage_submit_def)

lemma sendMessage_resume_reply:
  "sendMessage_resume r (snd (callGeminiApi key fetched t)) s =
     s\<lparr> chatHistory := chatHistory s @
           [\<lparr> msg_id = length (chatHistory r) + 2,
              msg_text = projr (snd (callGeminiApi key fetched t)), isBot = True \<rparr>],
         isLoading := False \<rparr>"
proof -
  obtain v where "snd (callGeminiApi key fetched t) = Inr v"
    using callGeminiApi_returns by blast
  then show ?thesis by (simp add: sendMessage_resume_def)
qed

section \<open>The claims about the reply resolver\<close>

text \<open>
  C7. When the credential is absent (\<open>undefined\<close>) or the empty string,
  \<open>callGeminiApi\<close> returns the fixed missing-credential string for every user message
  and however the network would behave, and has no effect at all: in particular it
  makes no \<open>fetch\<close> call.
\<close>

theorem missing_credential_fallback:
  "key = None \<or> key = Some [] \<Longrightarrow>
     callGeminiApi key fetched userMessage = ([], Inr (JString MSG_NO_KEY))"
  by (auto simp: callGeminiApi_def callGeminiApi_try_def)

theorem missing_credential_fallback_witness:
  "callGeminiApi None (Inl FetchRejected) (lit ''hi'') = ([], Inr (JString MSG_NO_KEY)) \<and>
   callGeminiApi (Some []) (Inr \<lparr> status = 200, response_text = None, response_json = Some JNull \<rparr>) (lit ''hi'')
     = ([], Inr (JString MSG_NO_KEY))"
proof
  show "callGeminiApi None (Inl FetchRejected) (lit ''hi'') = ([], Inr (JString MSG_NO_KEY))"
    by (rule missing_credential_fallback) simp
  show "callGeminiApi (Some []) (Inr \<lparr> status = 200, response_text = None, response_json = Some JNull \<rparr>) (lit ''hi'')
     = ([], Inr (JString MSG_NO_KEY))"
    by (rule missing_credential_fallback) simp
qed

text \<open>
  C3, as the code has it. No error escapes \<open>callGeminiApi\<close>, and every result is either
  the text found in a successful response or one of three fixed strings that are pairwise
  distinct: the missing-credential string, the no-text string and the error string. A
  response with a status outside 200 to 299 yields the error string, and so do a
  \<open>fetch\<close> that rejects and a successful response whose body is not JSON: the service
  error and the transport error share one string.
\<close>

theorem failures_become_fallbacks:
  "distinct [MSG_NO_KEY, MSG_NO_TEXT, MSG_ERROR] \<and>
   (\<exists>v. snd (callGeminiApi key fetched m) = Inr v) \<and>
   (k \<noteq> [] \<and> \<not> ok resp \<longrightarrow>
      snd (callGeminiApi (Some k) (Inr resp) m) = Inr (JString MSG_ERROR)) \<and>
   (k \<noteq> [] \<longrightarrow>
      snd (callGeminiApi (Some k) (Inl e) m) = Inr (JString MSG_ERROR)) \<and>
   (k \<noteq> [] \<and> ok resp \<and> response_json resp = None \<longrightarrow>
      snd (callGeminiApi (Some k) (Inr resp) m) = Inr (JString MSG_ERROR)) \<and>
   (snd (callGeminiApi key fetched m) = Inr (JString MSG_NO_KEY) \<or>
    snd (callGeminiApi key fetched m) = Inr (JString MSG_NO_TEXT) \<or>
    snd (callGeminiApi key fetched m) = Inr (JString MSG_ERROR) \<or>
    (\<exists>r d v. fetched = Inr r \<and> ok r \<and> response_json r = Some d \<and>
       extract_text d = Some v \<and> truthy v \<and> snd (callGeminiApi key fetched m) = Inr v))"
proof -
  have cases: "snd (callGeminiApi key fetched m) = Inr (JString MSG_NO_KEY) \<or>
    snd (callGeminiApi key fetched m) = Inr (JString MSG_NO_TEXT) \<or>
    snd (callGeminiApi key fetched m) = Inr (JString MSG_ERROR) \<or>
    (\<exists>r d v. fetched = Inr r \<and> ok r \<and> response_json r = Some d \<and>
       extract_text d = Some v \<and> truthy v \<and> snd (callGeminiApi key fetched m) = Inr v)"
    by (auto simp: callGeminiApi_def callGeminiApi_try_def js_or_def
        split: option.splits sum.splits)
  show ?thesis
    using fallbacks_distinct callGeminiApi_returns [of key fetched m] cases
      callGeminiApi_not_ok [of k resp m] callGeminiApi_rejected [of k e m]
      callGeminiApi_bad_json [of k resp m]
    by simp
qed

theorem failures_become_fallbacks_witness:
  "snd (callGeminiApi (Some (lit ''K''))
         (Inr \<lparr> status = 500, response_text = Some (lit ''Internal error''), response_json = None \<rparr>)
         (lit ''hi'')) = Inr (JString MSG_ERROR) \<and>
   snd (callGeminiApi (Some (lit ''K'')) (Inl FetchRejected) (lit ''hi'')) = Inr (JString MSG_ERROR) \<and>
   snd (callGeminiApi (Some (lit ''K''))
         (Inr \<lparr> status = 200, response_text = None, response_json = None \<rparr>)
         (lit ''hi'')) = Inr (JString MSG_ERROR)"
proof -
  have k: "lit ''K'' \<noteq> []" by (simp add: lit_def)
  have bad: "\<not> ok \<lparr> status = 500, response_text = Some (lit ''Internal error''), response_json = None \<rparr>"
    by (simp add: ok_def)
  have good: "ok \<lparr> status = 200, response_text = None, response_json = None \<rparr>"
    by (simp add: ok_def)
  show ?thesis
    using k bad
      failures_become_fallbacks [of None "Inl FetchRejected" "lit ''hi''" "lit ''K''"
        "\<lparr> status = 500, response_text = Some (lit ''Internal error''), response_json = None \<rparr>" FetchRejected]
      good
      failures_become_fallbacks [of None "Inl FetchRejected" "lit ''hi''" "lit ''K''"
        "\<lparr> status = 200, response_text = None, response_json = None \<rparr>" FetchRejected]
    by simp
qed

text \<open>
  The claim as stated fails: for a response of status 500 the function returns the very
  string it returns when \<open>fetch\<close> rejects.
\<close>

theorem service_error_is_transport_error:
  "snd (callGeminiApi (Some (lit ''K''))
         (Inr \<lparr> status = 500, response_text = Some (lit ''Internal error''), response_json = None \<rparr>)
         (lit ''hi''))
   = snd (callGeminiApi (Some (lit ''K'')) (Inl FetchRejected) (lit ''hi''))"
  by (simp add: callGeminiApi_def callGeminiApi_try_def lit_def ok_def)

text \<open>
  C8. When the credential is present and the response has a status from 200 to 299 and a
  JSON body, the result of \<open>callGeminiApi\<close> is read from the body itself: if the body
  is an object whose property \<open>candidates\<close> is an array, the first element of that array
  an object whose property \<open>content\<close> is an object, whose property \<open>parts\<close> is an
  array, the first element of that array an object whose property \<open>text\<close> is a string,
  then that string is returned when it is not empty, and the fixed no-text string when it
  is empty, whatever other properties the objects have and whatever follows the first
  candidate and the first part. The no-text string is also returned when the path is
  absent: the body is not an object, or \<open>candidates\<close> is missing or an empty array, or
  the first candidate has no \<open>content\<close>, or the content has no \<open>parts\<close> or an empty
  array of them, or the first part has no \<open>text\<close>. The last two conjuncts say the same
  of the optional chain of the source. Nothing is thrown in any of these cases.
\<close>

theorem success_extraction:
  assumes "k \<noteq> []" and "ok resp" and "response_json resp = Some responseData"
  shows
    "(responseData = JObject root \<and>
      map_of root (lit ''candidates'') = Some (JArray (JObject cand # cs)) \<and>
      map_of cand (lit ''content'') = Some (JObject cont) \<and>
      map_of cont (lit ''parts'') = Some (JArray (JObject part # ps)) \<and>
      map_of part (lit ''text'') = Some (JString t) \<longrightarrow>
        snd (callGeminiApi (Some k) (Inr resp) userMessage)
          = Inr (JString (if t = [] then MSG_NO_TEXT else t))) \<and>
     ((case responseData of JObject x \<Rightarrow> False | _ \<Rightarrow> True) \<or>
      (responseData = JObject root \<and> map_of root (lit ''candidates'') = None) \<or>
      (responseData = JObject root \<and> map_of root (lit ''candidates'') = Some (JArray [])) \<or>
      (responseData = JObject root \<and>
       map_of root (lit ''candidates'') = Some (JArray (JObject cand # cs)) \<and>
       map_of cand (lit ''content'') = None) \<or>
      (responseData = JObject root \<and>
       map_of root (lit ''candidates'') = Some (JArray (JObject cand # cs)) \<and>
       map_of cand (lit ''content'') = Some (JObject cont) \<and>
       map_of cont (lit ''parts'') = None) \<or>
      (responseData = JObject root \<and>
       map_of root (lit ''candidates'') = Some (JArray (JObject cand # cs)) \<and>
       map_of cand (lit ''content'') = Some (JObject cont) \<and>
       map_of cont (lit ''parts'') = Some (JArray [])) \<or>
      (responseData = JObject root \<and>
       map_of root (lit ''candidates'') = Some (JArray (JObject cand # cs)) \<and>
       map_of cand (lit ''content'') = Some (JObject cont) \<and>
       map_of cont (lit ''parts'') = Some (JArray (JObject part # ps)) \<and>
       map_of part (lit ''text'') = None) \<longrightarrow>
        snd (callGeminiApi (Some k) (Inr resp) userMessage) = Inr (JString MSG_NO_TEXT)) \<and>
     (extract_text responseData = Some (JString t) \<and> t \<noteq> [] \<longrightarrow>
        snd (callGeminiApi (Some k) (Inr resp) userMessage) = Inr (JString t)) \<and>
     (extract_text responseData = None \<or> extract_text responseData = Some (JString []) \<longrightarrow>
        snd (callGeminiApi (Some k) (Inr resp) userMessage) = Inr (JString MSG_NO_TEXT))"
proof -
  have res: "snd (callGeminiApi (Some k) (Inr resp) userMessage)
      = Inr (js_or (extract_text responseData) (JString MSG_NO_TEXT))"
    using callGeminiApi_ok [OF assms, of userMessage] by simp
  have present: "snd (callGeminiApi (Some k) (Inr resp) userMessage)
          = Inr (JString (if t = [] then MSG_NO_TEXT else t))"
    if "responseData = JObject root"
      and "map_of root (lit ''candidates'') = Some (JArray (JObject cand # cs))"
      and "map_of cand (lit ''content'') = Some (JObject cont)"
      and "map_of cont (lit ''parts'') = Some (JArray (JObject part # ps))"
      and "map_of part (lit ''text'') = Some (JString t)"
    using that extract_text_first_part [of root cand cs cont part ps]
    by (simp add: res js_or_def)
  have absent: "extract_text responseData = None"
    if "(case responseData of JObject x \<Rightarrow> False | _ \<Rightarrow> True) \<or>
      (responseData = JObject root \<and> map_of root (lit ''candidates'') = None) \<or>
      (responseData = JObject root \<and> map_of root (lit ''candidates'') = Some (JArray [])) \<or>
      (responseData = JObject root \<and>
       map_of root (lit ''candidates'') = Some (JArray (JObject cand # cs)) \<and>
       map_of cand (lit ''content'') = None) \<or>
      (responseData = JObject root \<and>
       map_of root (lit ''candidates'') = Some (JArray (JObject cand # cs)) \<and>
       map_of cand (lit ''content'') = Some (JObject cont) \<and>
       map_of cont (lit ''parts'') = None) \<or>
      (responseData = JObject root \<and>
       map_of root (lit ''candidates'') = Some (JArray (JObject cand # cs)) \<and>
       map_of cand (lit ''content'') = Some (JObject cont) \<and>
       map_of cont (lit ''parts'') = Some (JArray [])) \<or>
      (responseData = JObject root \<and>
       map_of root (lit ''candidates'') = Some (JArray (JObject cand # cs)) \<and>
       map_of cand (lit ''content'') = Some (JObject cont) \<and>
       map_of cont (lit ''parts'') = Some (JArray (JObject part # ps)) \<and>
       map_of part (lit ''text'') = None)"
    using that extract_text_not_object [of responseData]
      extract_text_no_candidates [of root] extract_text_no_content [of root cand cs]
      extract_text_no_parts [of root cand cs cont]
      extract_text_first_part [of root cand cs cont part ps]
    by (elim disjE) simp_all
  have chain: "(extract_text responseData = Some (JString t) \<and> t \<noteq> [] \<longrightarrow>
        snd (callGeminiApi (Some k) (Inr resp) userMessage) = Inr (JString t)) \<and>
     (extract_text responseData = None \<or> extract_text responseData = Some (JString []) \<longrightarrow>
        snd (callGeminiApi (Some k) (Inr resp) userMessage) = Inr (JString MSG_NO_TEXT))"
    by (auto simp: res js_or_def)
  have none: "extract_text responseData = None \<Longrightarrow>
      snd (callGeminiApi (Some k) (Inr resp) userMessage) = Inr (JString MSG_NO_TEXT)"
    by (simp add: res js_or_def)
  show ?thesis
    using present absent none chain by blast
qed


theorem success_extraction_witness:
  "snd (callGeminiApi (Some (lit ''K''))
     (Inr \<lparr> status = 200, response_text = None,
            response_json = Some (JObject
              [(lit ''modelVersion'', JString (lit ''gemini-1.5-flash'')),
               (lit ''candidates'', JArray
                 [JObject
                    [(lit ''finishReason'', JString (lit ''STOP'')),
                     (lit ''content'', JObject
                        [(lit ''role'', JString (lit ''model'')),
                         (lit ''parts'', JArray
                            [JObject [(lit ''thought'', JBool False), (lit ''text'', JString (lit ''Hello back''))],
                             JObject [(lit ''text'', JString (lit ''second part''))]])])],
                  JObject
                    [(lit ''content'', JObject
                        [(lit ''parts'', JArray
                            [JObject [(lit ''text'', JString (lit ''second candidate''))]])])]])]) \<rparr>)
     (lit ''hi'')) = Inr (JString (lit ''Hello back'')) \<and>
   snd (callGeminiApi (Some (lit ''K''))
     (Inr \<lparr> status = 200, response_text = None,
            response_json = Some (JObject
              [(lit ''modelVersion'', JString (lit ''gemini-1.5-flash'')),
               (lit ''candidates'', JArray [])]) \<rparr>)
     (lit ''hi'')) = Inr (JString MSG_NO_TEXT) \<and>
   snd (callGeminiApi (Some (lit ''K''))
     (Inr \<lparr> status = 200, response_text = None,
            response_json = Some (JObject
              [(lit ''modelVersion'', JString (lit ''gemini-1.5-flash'')),
               (lit ''candidates'', JArray
                 [JObject
                    [(lit ''finishReason'', JString (lit ''STOP'')),
                     (lit ''content'', JObject
                        [(lit ''role'', JString (lit ''model'')),
                         (lit ''parts'', JArray
                            [JObject [(lit ''text'', JString [])],
                             JObject [(lit ''text'', JString (lit ''second part''))]])])]])]) \<rparr>)
     (lit ''hi'')) = Inr (JString MSG_NO_TEXT)"
proof -
  let ?part = "[(lit ''thought'', JBool False), (lit ''text'', JString (lit ''Hello back''))]"
  let ?ps = "[JObject [(lit ''text'', JString (lit ''second part''))]]"
  let ?cont = "[(lit ''role'', JString (lit ''model'')), (lit ''parts'', JArray (JObject ?part # ?ps))]"
  let ?cand = "[(lit ''finishReason'', JString (lit ''STOP'')), (lit ''content'', JObject ?cont)]"
  let ?cs = "[JObject [(lit ''content'', JObject
                [(lit ''parts'', JArray [JObject [(lit ''text'', JString (lit ''second candidate''))]])])]]"
  let ?root = "[(lit ''modelVersion'', JString (lit ''gemini-1.5-flash'')),
                (lit ''candidates'', JArray (JObject ?cand # ?cs))]"
  let ?epart = "[(lit ''text'', JString [])]"
  let ?econt = "[(lit ''role'', JString (lit ''model'')), (lit ''parts'', JArray (JObject ?epart # ?ps))]"
  let ?ecand = "[(lit ''finishReason'', JString (lit ''STOP'')), (lit ''content'', JObject ?econt)]"
  let ?eroot = "[(lit ''modelVersion'', JString (lit ''gemini-1.5-flash'')),
                 (lit ''candidates'', JArray (JObject ?ecand # []))]"
  let ?noroot = "[(lit ''modelVersion'', JString (lit ''gemini-1.5-flash'')),
                  (lit ''candidates'', JArray [])]"
  have k: "lit ''K'' \<noteq> []" by (simp add: lit_def)
  have hello: "lit ''Hello back'' \<noteq> []" by (simp add: lit_def)
  have good: "ok \<lparr> status = 200, response_text = None, response_json = Some d \<rparr>" for d
    by (simp add: ok_def)
  have p1: "map_of ?root (lit ''candidates'') = Some (JArray (JObject ?cand # ?cs))"
    and p2: "map_of ?cand (lit ''content'') = Some (JObject ?cont)"
    and p3: "map_of ?cont (lit ''parts'') = Some (JArray (JObject ?part # ?ps))"
    and p4: "map_of ?part (lit ''text'') = Some (JString (lit ''Hello back''))"
    by (simp_all add: lit_def)
  have e1: "map_of ?eroot (lit ''candidates'') = Some (JArray (JObject ?ecand # []))"
    and e2: "map_of ?ecand (lit ''content'') = Some (JObject ?econt)"
    and e3: "map_of ?econt (lit ''parts'') = Some (JArray (JObject ?epart # ?ps))"
    and e4: "map_of ?epart (lit ''text'') = Some (JString [])"
    by (simp_all add: lit_def)
  have n1: "map_of ?noroot (lit ''candidates'') = Some (JArray [])"
    by (simp add: lit_def)
  have a: "snd (callGeminiApi (Some (lit ''K''))
      (Inr \<lparr> status = 200, response_text = None, response_json = Some (JObject ?root) \<rparr>) (lit ''hi''))
      = Inr (JString (lit ''Hello back''))"
    using success_extraction [OF k good, where responseData = "JObject ?root" and root = ?root
        and cand = ?cand and cs = ?cs and cont = ?cont and part = ?part and ps = ?ps
        and t = "lit ''Hello back''" and userMessage = "lit ''hi''"]
      p1 p2 p3 p4 hello
    by simp
  have b: "snd (callGeminiApi (Some (lit ''K''))
      (Inr \<lparr> status = 200, response_text = None, response_json = Some (JObject ?noroot) \<rparr>) (lit ''hi''))
      = Inr (JString MSG_NO_TEXT)"
    using success_extraction [OF k good, where responseData = "JObject ?noroot" and root = ?noroot
        and userMessage = "lit ''hi''"]
      n1
    by simp
  have c: "snd (callGeminiApi (Some (lit ''K''))
      (Inr \<lparr> status = 200, response_text = None, response_json = Some (JObject ?eroot) \<rparr>) (lit ''hi''))
      = Inr (JString MSG_NO_TEXT)"
    using success_extraction [OF k good, where responseData = "JObject ?eroot" and root = ?eroot
        and cand = ?ecand and cs = "[]" and cont = ?econt and part = ?epart and ps = ?ps
        and t = "[]" and userMessage = "lit ''hi''"]
      e1 e2 e3 e4
    by simp
  from a b c show ?thesis by simp
qed

text \<open>
  C9. With the configuration of app.config.js the credential is never absent or empty,
  whatever the environment holds: an unset or empty environment variable gives the
  placeholder \<open>FALLBACK_API_KEY\<close>. So \<open>callGeminiApi\<close> always makes its \<open>fetch\<close>
  call, with the placeholder in the URL when the real credential is absent, and when that
  call rejects or answers with a status outside 200 to 299 the result is the error string,
  which is not the missing-credential string.
\<close>

theorem shipped_key_never_missing:
  "GEMINI_API_KEY env \<noteq> None \<and> GEMINI_API_KEY env \<noteq> Some [] \<and>
   GEMINI_API_KEY None = Some (lit ''FALLBACK_API_KEY'') \<and>
   GEMINI_API_KEY (Some []) = Some (lit ''FALLBACK_API_KEY'') \<and>
   (\<exists>rest. fst (callGeminiApi (GEMINI_API_KEY env) fetched m)
      = Fetch (gemini_request (geminiApiKey env) m) # rest) \<and>
   url (gemini_request (geminiApiKey None) m) = API_URL @ lit ''?key=FALLBACK_API_KEY'' \<and>
   snd (callGeminiApi (GEMINI_API_KEY None) (Inl e) m) = Inr (JString MSG_ERROR) \<and>
   (\<not> ok resp \<longrightarrow>
      snd (callGeminiApi (GEMINI_API_KEY None) (Inr resp) m) = Inr (JString MSG_ERROR)) \<and>
   MSG_ERROR \<noteq> MSG_NO_KEY"
proof -
  have key: "geminiApiKey env \<noteq> []" for env
    by (simp add: geminiApiKey_def lit_def split: option.splits)
  have u: "url (gemini_request (geminiApiKey None) m) = API_URL @ lit ''?key=FALLBACK_API_KEY''"
    by (simp add: gemini_request_def geminiApiKey_def lit_def)
  show ?thesis
    using key [of env] u fallbacks_distinct
      callGeminiApi_fetches [OF key [of env], of fetched m]
      callGeminiApi_rejected [OF key [of None], of e m]
      callGeminiApi_not_ok [OF key [of None], of resp m]
    by (auto simp: GEMINI_API_KEY_def) (simp_all add: geminiApiKey_def)
qed

theorem shipped_key_never_missing_witness:
  "GEMINI_API_KEY None = Some (lit ''FALLBACK_API_KEY'') \<and>
   snd (callGeminiApi (GEMINI_API_KEY None)
         (Inr \<lparr> status = 400, response_text = Some (lit ''API key not valid''), response_json = None \<rparr>)
         (lit ''hi'')) = Inr (JString MSG_ERROR) \<and>
   MSG_ERROR \<noteq> MSG_NO_KEY"
proof -
  have bad: "\<not> ok \<lparr> status = 400, response_text = Some (lit ''API key not valid''), response_json = None \<rparr>"
    by (simp add: ok_def)
  show ?thesis
    using bad shipped_key_never_missing [of None "Inl FetchRejected" "lit ''hi''" FetchRejected
        "\<lparr> status = 400, response_text = Some (lit ''API key not valid''), response_json = None \<rparr>"]
    by blast
qed

section \<open>The claims about the session\<close>

text \<open>
  C1, as the code has it. Pressing the send button while \<open>isLoading\<close> is set changes
  nothing and starts no call of \<open>callGeminiApi\<close>, because the button is disabled then;
  the session is left as it was. \<open>sendMessage\<close> itself tests only the draft: it changes
  nothing and starts no call when the trimmed draft is empty.
\<close>

theorem send_while_loading_is_noop:
  "(isLoading s \<longrightarrow> pressSend s = (s, None)) \<and>
   (isLoading (screen c) \<longrightarrow> step key c PressSend = c) \<and>
   (trim (message r) = [] \<longrightarrow> sendMessage_submit r s = (s, None))"
  by (simp add: pressSend_def sendButton_disabled_def launch_def sendMessage_submit_blank)

theorem send_while_loading_is_noop_witness:
  "pressSend (initial_screen\<lparr> message := lit ''hi'', isLoading := True \<rparr>)
     = (initial_screen\<lparr> message := lit ''hi'', isLoading := True \<rparr>, None) \<and>
   sendMessage_submit (initial_screen\<lparr> message := lit ''   '' \<rparr>) initial_screen
     = (initial_screen, None)"
proof -
  have a: "isLoading (initial_screen\<lparr> message := lit ''hi'', isLoading := True \<rparr>)"
    by simp
  have b: "trim (message (initial_screen\<lparr> message := lit ''   '' \<rparr>)) = []"
    by (simp add: trim_def lit_def isWhiteSpace_def)
  show ?thesis
    using a b
      send_while_loading_is_noop [of "initial_screen\<lparr> message := lit ''hi'', isLoading := True \<rparr>"
        initial_session None "initial_screen\<lparr> message := lit ''   '' \<rparr>"]
      send_while_loading_is_noop [of initial_screen
        initial_session None "initial_screen\<lparr> message := lit ''   '' \<rparr>"]
    by blast
qed

text \<open>
  The claim as stated fails: \<open>sendMessage\<close>, called while \<open>isLoading\<close> is set with the
  draft \<open>hi\<close>, appends a user message, clears the draft and starts a call of
  \<open>callGeminiApi\<close>.
\<close>

theorem sendMessage_ignores_isLoading:
  "isLoading (initial_screen\<lparr> message := lit ''hi'', isLoading := True \<rparr>) \<and>
   sendMessage_submit (initial_screen\<lparr> message := lit ''hi'', isLoading := True \<rparr>)
                      (initial_screen\<lparr> message := lit ''hi'', isLoading := True \<rparr>)
     = (\<lparr> message = [], isLoading = True,
          chatHistory = chatHistory initial_screen @
            [\<lparr> msg_id = 2, msg_text = JString (lit ''hi''), isBot = False \<rparr>] \<rparr>,
        Some (lit ''hi''))"
  by (simp add: sendMessage_submit_def initial_screen_def trim_def lit_def isWhiteSpace_def)

text \<open>
  C2, as the code has it. The id of the bot message that \<open>sendMessage\<close> appends is the
  length of the history of the render the call closes over, plus 2, whatever the history
  is when the message is appended. In a gated run the history at that moment is one longer
  than the captured one, so there the id is the length of the history at append time
  plus 1.
\<close>

theorem reply_id_from_captured_length:
  "msg_id (last (chatHistory (sendMessage_resume r (Inr v) s))) = length (chatHistory r) + 2 \<and>
   (gated evs \<and> inflight (run key evs initial_session) = (r', t) # rest \<longrightarrow>
      length (chatHistory r') + 2 = length (chatHistory (screen (run key evs initial_session))) + 1)"
proof -
  have "gate_inv (run key evs initial_session)" if "gated evs"
    using that gate_inv_initial by (rule gate_inv_run)
  then show ?thesis
    by (auto simp: sendMessage_resume_def gate_inv_def split: list.splits)
qed

theorem reply_id_from_captured_length_witness:
  "msg_id (last (chatHistory (sendMessage_resume initial_screen (Inr (JString (lit ''Hello back'')))
      (fst (sendMessage_submit (setMessage (lit ''hi'') initial_screen) (setMessage (lit ''hi'') initial_screen)))))) = 3 \<and>
   length (chatHistory (screen (run None [ChangeText (lit ''hi''), PressSend] initial_session))) = 2"
proof -
  have g: "gated [ChangeText (lit ''hi''), PressSend]"
    by (simp add: gated_def)
  have i: "inflight (run None [ChangeText (lit ''hi''), PressSend] initial_session)
      = (setMessage (lit ''hi'') initial_screen, lit ''hi'') # []"
    by (simp add: run_def initial_session_def setMessage_def pressSend_def sendButton_disabled_def
        launch_def sendMessage_submit_def initial_screen_def trim_def lit_def isWhiteSpace_def)
  have l: "length (chatHistory (setMessage (lit ''hi'') initial_screen)) = 1"
    by (simp add: setMessage_def initial_screen_def)
  have l0: "length (chatHistory initial_screen) = 1"
    by (simp add: initial_screen_def)
  show ?thesis
    using g i l l0
      reply_id_from_captured_length [of initial_screen "JString (lit ''Hello back'')"
        "fst (sendMessage_submit (setMessage (lit ''hi'') initial_screen) (setMessage (lit ''hi'') initial_screen))"
        "[ChangeText (lit ''hi''), PressSend]" None "setMessage (lit ''hi'') initial_screen" "lit ''hi''" "[]"]
    by simp
qed

text \<open>
  The claim as stated fails: when \<open>sendMessage\<close> is called a second time while the first
  call is suspended, the history has three messages when the first call resumes, and the
  bot message it appends gets the id 3, not 4.
\<close>

theorem reply_id_not_from_current_length:
  "length (chatHistory (screen (run (Some (lit ''K''))
      [ChangeText (lit ''hi''), PressSend, ChangeText (lit ''yo''), CallSendMessage]
      initial_session))) = 3 \<and>
   map msg_id (chatHistory (screen (run (Some (lit ''K''))
      [ChangeText (lit ''hi''), PressSend, ChangeText (lit ''yo''), CallSendMessage, Resolve (Inl FetchRejected)]
      initial_session))) = [1, 2, 3, 3]"
  by (simp add: run_def initial_session_def setMessage_def pressSend_def sendButton_disabled_def
        launch_def sendMessage_submit_def sendMessage_resume_def initial_screen_def trim_def lit_def
        isWhiteSpace_def callGeminiApi_def callGeminiApi_try_def)

text \<open>
  C4. Every call of \<open>sendMessage\<close> that passes its guard sets \<open>isLoading\<close> and starts
  one call of \<open>callGeminiApi\<close>; when that call has settled, whether with the reply, with
  one of the fallback strings or after a failed \<open>fetch\<close>, the resumed \<open>sendMessage\<close>
  appends exactly one bot message to the history as it then is and clears \<open>isLoading\<close>.
  The same holds of a whole call, and of the step of a session that resumes a suspended
  call. (The promise of \<open>fetch\<close> is taken to settle: \<open>fetched\<close> ranges over its
  rejection and all its responses.)
\<close>

theorem one_reply_per_accepted_submit:
  "(trim (message r) \<noteq> [] \<longrightarrow>
      isLoading (fst (sendMessage_submit r s)) \<and>
      snd (sendMessage_submit r s) = Some (message r) \<and>
      (\<exists>u b. \<not> isBot u \<and> isBot b \<and>
         snd (sendMessage key fetched r s)
           = s\<lparr> message := [], isLoading := False, chatHistory := chatHistory s @ [u, b] \<rparr>)) \<and>
   (\<exists>b. isBot b \<and>
      sendMessage_resume r (snd (callGeminiApi key fetched t)) s2
        = s2\<lparr> chatHistory := chatHistory s2 @ [b], isLoading := False \<rparr>) \<and>
   (inflight c = (r, t) # rest \<longrightarrow>
      (\<exists>b. isBot b \<and>
         chatHistory (screen (step key c (Resolve fetched))) = chatHistory (screen c) @ [b]) \<and>
      \<not> isLoading (screen (step key c (Resolve fetched))) \<and>
      inflight (step key c (Resolve fetched)) = rest)"
proof (intro conjI impI)
  assume a: "trim (message r) \<noteq> []"
  show "isLoading (fst (sendMessage_submit r s))"
    and "snd (sendMessage_submit r s) = Some (message r)"
    using a by (simp_all add: sendMessage_submit_accepts)
  show "\<exists>u b. \<not> isBot u \<and> isBot b \<and>
         snd (sendMessage key fetched r s)
           = s\<lparr> message := [], isLoading := False, chatHistory := chatHistory s @ [u, b] \<rparr>"
    apply (rule exI [of _ "\<lparr> msg_id = length (chatHistory r) + 1, msg_text = JString (message r), isBot = False \<rparr>"])
    apply (rule exI [of _ "\<lparr> msg_id = length (chatHistory r) + 2,
              msg_text = projr (snd (callGeminiApi key fetched (message r))), isBot = True \<rparr>"])
    using a by (simp add: sendMessage_def sendMessage_submit_accepts sendMessage_resume_reply)
next
  show "\<exists>b. isBot b \<and>
      sendMessage_resume r (snd (callGeminiApi key fetched t)) s2
        = s2\<lparr> chatHistory := chatHistory s2 @ [b], isLoading := False \<rparr>"
    by (rule exI [of _ "\<lparr> msg_id = length (chatHistory r) + 2,
              msg_text = projr (snd (callGeminiApi key fetched t)), isBot = True \<rparr>"])
       (simp add: sendMessage_resume_reply)
next
  assume i: "inflight c = (r, t) # rest"
  show "\<exists>b. isBot b \<and>
         chatHistory (screen (step key c (Resolve fetched))) = chatHistory (screen c) @ [b]"
    by (rule exI [of _ "\<lparr> msg_id = length (chatHistory r) + 2,
              msg_text = projr (snd (callGeminiApi key fetched t)), isBot = True \<rparr>"])
       (simp add: i sendMessage_resume_reply)
  show "\<not> isLoading (screen (step key c (Resolve fetched)))"
    by (simp add: i sendMessage_resume_reply)
  show "inflight (step key c (Resolve fetched)) = rest"
    by (simp add: i)
qed

theorem one_reply_per_accepted_submit_witness:
  "isLoading (fst (sendMessage_submit (setMessage (lit ''hi'') initial_screen)
                                      (setMessage (lit ''hi'') initial_screen))) \<and>
   (\<exists>u b. \<not> isBot u \<and> isBot b \<and>
      snd (sendMessage None (Inl FetchRejected)
             (setMessage (lit ''hi'') initial_screen) (setMessage (lit ''hi'') initial_screen))
        = (setMessage (lit ''hi'') initial_screen)
            \<lparr> message := [], isLoading := False,
              chatHistory := chatHistory (setMessage (lit ''hi'') initial_screen) @ [u, b] \<rparr>)"
proof -
  have a: "trim (message (setMessage (lit ''hi'') initial_screen)) \<noteq> []"
    by (simp add: setMessage_def trim_def lit_def isWhiteSpace_def)
  show ?thesis
    using a one_reply_per_accepted_submit [of "setMessage (lit ''hi'') initial_screen"
        "setMessage (lit ''hi'') initial_screen" None "Inl FetchRejected" "lit ''hi''"
        initial_screen initial_session "[]"]
    by blast
qed

text \<open>
  C5. In every session reached from the initial one by a gated run, the id of each message
  is its 1-based position in the history, so the ids are strictly increasing in append
  order; and every further gated event, among them the append of the user message by the
  send button and the append of the bot message by the resumed call, leads to a history
  of which that holds again.
\<close>

theorem ids_equal_positions:
  assumes "gated evs"
  shows "(\<forall>i < length (chatHistory (screen (run key evs initial_session))).
            msg_id (chatHistory (screen (run key evs initial_session)) ! i) = i + 1) \<and>
         sorted_wrt (<) (map msg_id (chatHistory (screen (run key evs initial_session)))) \<and>
         (ev \<noteq> CallSendMessage \<longrightarrow>
            ids_are_positions (chatHistory (screen (step key (run key evs initial_session) ev))))"
proof -
  have inv: "gate_inv (run key evs initial_session)"
    using assms gate_inv_initial by (rule gate_inv_run)
  then have pos: "ids_are_positions (chatHistory (screen (run key evs initial_session)))"
    by (simp add: gate_inv_def)
  have "gate_inv (step key (run key evs initial_session) ev)" if "ev \<noteq> CallSendMessage"
    using inv that by (rule gate_inv_step)
  then have next_pos: "ev \<noteq> CallSendMessage \<longrightarrow>
      ids_are_positions (chatHistory (screen (step key (run key evs initial_session) ev)))"
    by (simp add: gate_inv_def)
  show ?thesis
    using ids_are_positions_nth [OF pos] ids_are_positions_sorted [OF pos] next_pos
    by blast
qed

theorem ids_equal_positions_witness:
  "gated [ChangeText (lit ''hi''), PressSend, Resolve (Inl FetchRejected)] \<and>
   msg_id (chatHistory (screen (run (Some (lit ''K''))
      [ChangeText (lit ''hi''), PressSend, Resolve (Inl FetchRejected)] initial_session)) ! 2) = 3 \<and>
   sorted_wrt (<) (map msg_id (chatHistory (screen (run (Some (lit ''K''))
      [ChangeText (lit ''hi''), PressSend, Resolve (Inl FetchRejected)] initial_session))))"
proof -
  have g: "gated [ChangeText (lit ''hi''), PressSend, Resolve (Inl FetchRejected)]"
    by (simp add: gated_def)
  have l: "length (chatHistory (screen (run (Some (lit ''K''))
      [ChangeText (lit ''hi''), PressSend, Resolve (Inl FetchRejected)] initial_session))) = 3"
    by (simp add: run_def initial_session_def setMessage_def pressSend_def sendButton_disabled_def
        launch_def sendMessage_submit_def sendMessage_resume_def initial_screen_def trim_def lit_def
        isWhiteSpace_def callGeminiApi_def callGeminiApi_try_def)
  show ?thesis
    using g l ids_equal_positions [OF g, of "Some (lit ''K'')" PressSend]
    by simp
qed

text \<open>
  C6. After a gated run that leaves no call suspended, the history has one message more
  than twice the number of accepted calls of \<open>sendMessage\<close>: the greeting, and one user
  and one bot message for each. The accepted calls are as many as the user messages, and
  \<open>isLoading\<close> is clear.
\<close>

theorem history_length_of_gated_run:
  assumes "gated evs" and "inflight (run key evs initial_session) = []"
  shows "length (chatHistory (screen (run key evs initial_session)))
           = 1 + 2 * accepted (run key evs initial_session) \<and>
         accepted (run key evs initial_session)
           = length (filter (\<lambda>m. \<not> isBot m) (chatHistory (screen (run key evs initial_session)))) \<and>
         \<not> isLoading (screen (run key evs initial_session))"
proof -
  have "count_inv (run key evs initial_session)"
    using count_inv_initial by (rule count_inv_run)
  moreover have "gate_inv (run key evs initial_session)"
    using assms(1) gate_inv_initial by (rule gate_inv_run)
  ultimately show ?thesis
    using assms(2) by (simp add: count_inv_def gate_inv_def)
qed

theorem history_length_of_gated_run_witness:
  "gated [ChangeText (lit ''hi''), PressSend, PressSend, Resolve (Inl FetchRejected),
          PressSend, ChangeText (lit ''yo''), PressSend, Resolve (Inl FetchRejected)] \<and>
   accepted (run (Some (lit ''K''))
      [ChangeText (lit ''hi''), PressSend, PressSend, Resolve (Inl FetchRejected),
       PressSend, ChangeText (lit ''yo''), PressSend, Resolve (Inl FetchRejected)] initial_session) = 2 \<and>
   length (chatHistory (screen (run (Some (lit ''K''))
      [ChangeText (lit ''hi''), PressSend, PressSend, Resolve (Inl FetchRejected),
       PressSend, ChangeText (lit ''yo''), PressSend, Resolve (Inl FetchRejected)] initial_session))) = 5"
proof -
  have g: "gated [ChangeText (lit ''hi''), PressSend, PressSend, Resolve (Inl FetchRejected),
          PressSend, ChangeText (lit ''yo''), PressSend, Resolve (Inl FetchRejected)]"
    by (simp add: gated_def)
  have r: "run (Some (lit ''K''))
      [ChangeText (lit ''hi''), PressSend, PressSend, Resolve (Inl FetchRejected),
       PressSend, ChangeText (lit ''yo''), PressSend, Resolve (Inl FetchRejected)] initial_session
     = \<lparr> screen = \<lparr> message = [], isLoading = False,
           chatHistory = chatHistory initial_screen @
             [\<lparr> msg_id = 2, msg_text = JString (lit ''hi''), isBot = False \<rparr>,
              \<lparr> msg_id = 3, msg_text = JString MSG_ERROR, isBot = True \<rparr>,
              \<lparr> msg_id = 4, msg_text = JString (lit ''yo''), isBot = False \<rparr>,
              \<lparr> msg_id = 5, msg_text = JString MSG_ERROR, isBot = True \<rparr>] \<rparr>,
         inflight = [], accepted = 2 \<rparr>"
    by (simp add: run_def initial_session_def setMessage_def pressSend_def sendButton_disabled_def
        launch_def sendMessage_submit_def sendMessage_resume_def initial_screen_def trim_def lit_def
        isWhiteSpace_def callGeminiApi_def callGeminiApi_try_def)
  have i: "inflight (run (Some (lit ''K''))
      [ChangeText (lit ''hi''), PressSend, PressSend, Resolve (Inl FetchRejected),
       PressSend, ChangeText (lit ''yo''), PressSend, Resolve (Inl FetchRejected)] initial_session) = []"
    by (simp add: r)
  have a: "accepted (run (Some (lit ''K''))
      [ChangeText (lit ''hi''), PressSend, PressSend, Resolve (Inl FetchRejected),
       PressSend, ChangeText (lit ''yo''), PressSend, Resolve (Inl FetchRejected)] initial_session) = 2"
    by (simp add: r)
  show ?thesis
    using g a history_length_of_gated_run [OF g i]
    by simp
qed

text \<open>
  C10. When the trimmed draft is not empty, \<open>sendMessage\<close> appends a user message whose
  text is the draft as it is, untrimmed, and passes that same string to
  \<open>callGeminiApi\<close>, whose request carries it as the text of its single part. The draft
  \<open>"  hi  "\<close> is accepted, appended and sent with its blanks.
\<close>

theorem draft_is_sent_untrimmed:
  assumes "trim (message r) \<noteq> []"
  shows "snd (sendMessage_submit r s) = Some (message r) \<and>
         chatHistory (fst (sendMessage_submit r s)) = chatHistory s @
           [\<lparr> msg_id = length (chatHistory r) + 1, msg_text = JString (message r), isBot = False \<rparr>] \<and>
         (k \<noteq> [] \<longrightarrow>
            (\<exists>rest. fst (sendMessage (Some k) fetched r s) = Fetch (gemini_request k (message r)) # rest)) \<and>
         body (gemini_request k (message r)) =
           JObject [(lit ''contents'',
             JArray [JObject [(lit ''parts'',
               JArray [JObject [(lit ''text'', JString (message r))]])]])]"
  using assms callGeminiApi_fetches [of k fetched "message r"]
  by (simp add: sendMessage_submit_accepts sendMessage_def gemini_request_def)

theorem draft_is_sent_untrimmed_witness:
  "trim (lit ''  hi  '') = lit ''hi'' \<and>
   snd (sendMessage_submit (setMessage (lit ''  hi  '') initial_screen) initial_screen)
     = Some (lit ''  hi  '') \<and>
   chatHistory (fst (sendMessage_submit (setMessage (lit ''  hi  '') initial_screen) initial_screen))
     = chatHistory initial_screen @
         [\<lparr> msg_id = 2, msg_text = JString (lit ''  hi  ''), isBot = False \<rparr>] \<and>
   (\<exists>rest. fst (sendMessage (Some (lit ''K'')) (Inl FetchRejected)
                  (setMessage (lit ''  hi  '') initial_screen) initial_screen)
            = Fetch (gemini_request (lit ''K'') (lit ''  hi  '')) # rest) \<and>
   body (gemini_request (lit ''K'') (lit ''  hi  '')) =
     JObject [(lit ''contents'',
       JArray [JObject [(lit ''parts'',
         JArray [JObject [(lit ''text'', JString (lit ''  hi  ''))]])]])]"
proof -
  have t: "trim (lit ''  hi  '') = lit ''hi''"
    by (simp add: trim_def lit_def isWhiteSpace_def)
  have m: "message (setMessage (lit ''  hi  '') initial_screen) = lit ''  hi  ''"
    by (simp add: setMessage_def)
  have a: "trim (message (setMessage (lit ''  hi  '') initial_screen)) \<noteq> []"
    by (simp add: m t) (simp add: lit_def)
  have k: "lit ''K'' \<noteq> []" by (simp add: lit_def)
  have l: "length (chatHistory (setMessage (lit ''  hi  '') initial_screen)) + 1 = 2"
    by (simp add: setMessage_def initial_screen_def)
  show ?thesis
    using t k draft_is_sent_untrimmed [OF a, of initial_screen "lit ''K''" "Inl FetchRejected"]
    unfolding m l by simp
qed


end
